theory Spec2Isabelle
  imports Complex_Main
begin

section \<open>World2: the DYNAMO lookup functions and the simulation engine\<close>

text \<open>
  A shallow embedding of \<^verbatim>\<open>src/world2.cpp\<close>: namespace \<^verbatim>\<open>dynamo\<close> (clip, tabhl, table) and
  class \<^verbatim>\<open>world2::world\<close> (constants, variables, run_complete, tick).

  Numbers. A C++ \<^verbatim>\<open>double\<close> is modelled as a \<^typ>\<open>real\<close>: arithmetic is exact, there is no
  rounding, no overflow, no infinity and no NaN. Where IEEE arithmetic leaves the reals (a
  division by zero) the model stops with \<open>NonFinite\<close> instead of going on with HOL's
  \<open>x / 0 = 0\<close>. Where C++ leaves the behaviour undefined (a \<^verbatim>\<open>static_cast<size_t>\<close> of a value
  that does not fit, a vector read out of range) the model stops with \<open>UndefinedBehaviour\<close>.
  The two \<^verbatim>\<open>std::runtime_error\<close>s of the source are \<open>DomainSizeError\<close> (thrown by tabhl) and
  \<open>DomainRangeError\<close> (thrown by table).
\<close>

subsection \<open>Errors\<close>

datatype error = DomainSizeError | DomainRangeError | UndefinedBehaviour | NonFinite

definition bind :: "error + 'a \<Rightarrow> ('a \<Rightarrow> error + 'b) \<Rightarrow> error + 'b" where
  "bind m f = (case m of Inl e \<Rightarrow> Inl e | Inr v \<Rightarrow> f v)"

text \<open>\<^verbatim>\<open>a / b\<close> on doubles: a zero divisor gives an infinity or a NaN.\<close>

definition fdiv :: "real \<Rightarrow> real \<Rightarrow> error + real" where
  "fdiv a b = (if b = 0 then Inl NonFinite else Inr (a / b))"

text \<open>
  \<^verbatim>\<open>static_cast<size_t>(r)\<close>: the fractional part is discarded (truncation toward zero); the
  behaviour is undefined when the truncated value is not a \<^verbatim>\<open>size_t\<close> (64 bits).
\<close>

definition to_size_t :: "real \<Rightarrow> nat option" where
  "to_size_t r = (if - 1 < r \<and> r < 2 ^ 64 then Some (nat \<lfloor>r\<rfloor>) else None)"

text \<open>\<^verbatim>\<open>ytbl[i]\<close> and \<^verbatim>\<open>ytbl.back()\<close> on a \<^verbatim>\<open>std::vector\<close>: unchecked.\<close>

definition vec_at :: "real list \<Rightarrow> nat \<Rightarrow> error + real" where
  "vec_at ytbl i = (if i < length ytbl then Inr (ytbl ! i) else Inl UndefinedBehaviour)"

definition vec_back :: "real list \<Rightarrow> error + real" where
  "vec_back ytbl = (if ytbl = [] then Inl UndefinedBehaviour else Inr (last ytbl))"

subsection \<open>namespace dynamo\<close>

definition clip :: "real \<Rightarrow> real \<Rightarrow> real \<Rightarrow> real \<Rightarrow> real" where
  "clip a b c d = (if c \<ge> d then a else b)"

text \<open>
  \<^verbatim>\<open>range\<close> of tabhl: \<^verbatim>\<open>static_cast<size_t>((xend - xstart) / xstep + 1)\<close>. With \<open>xstep = 0\<close> the
  quotient is an infinity or a NaN and the cast is undefined.
\<close>

definition table_range :: "real \<Rightarrow> real \<Rightarrow> real \<Rightarrow> nat option" where
  "table_range xstart xend xstep =
     (if xstep = 0 then None else to_size_t ((xend - xstart) / xstep + 1))"

text \<open>The tail of tabhl, from \<^verbatim>\<open>const size_t i = ...\<close> on; \<^verbatim>\<open>range - 1\<close> wraps in \<^verbatim>\<open>size_t\<close>.\<close>

definition interpolate :: "real list \<Rightarrow> nat \<Rightarrow> real \<Rightarrow> real \<Rightarrow> real \<Rightarrow> error + real" where
  "interpolate ytbl rng x xstart xstep =
     (case to_size_t ((x - xstart) / xstep) of
        None \<Rightarrow> Inl UndefinedBehaviour
      | Some i \<Rightarrow>
          if i = (rng + 2 ^ 64 - 1) mod 2 ^ 64 then vec_at ytbl i
          else bind (vec_at ytbl i) (\<lambda>y0. bind (vec_at ytbl (i + 1)) (\<lambda>y1.
                 Inr (y0 + (x - xstart - (xstep * real i)) * (y1 - y0) / xstep))))"

definition tabhl :: "real list \<Rightarrow> real \<Rightarrow> real \<Rightarrow> real \<Rightarrow> real \<Rightarrow> error + real" where
  "tabhl ytbl x xstart xend xstep =
     (case table_range xstart xend xstep of
        None \<Rightarrow> Inl UndefinedBehaviour
      | Some rng \<Rightarrow>
          if length ytbl \<noteq> rng then Inl DomainSizeError
          else if xstart < xend then
            (if x < xstart then vec_at ytbl 0
             else if x > xend then vec_back ytbl
             else interpolate ytbl rng x xstart xstep)
          else
            (if x < xend then vec_back ytbl
             else if x > xstart then vec_at ytbl 0
             else interpolate ytbl rng x xstart xstep))"

definition table :: "real list \<Rightarrow> real \<Rightarrow> real \<Rightarrow> real \<Rightarrow> real \<Rightarrow> error + real" where
  "table ytbl x xstart xend xstep =
     (if xstart < xend then
        (if x < xstart \<or> x > xend then Inl DomainRangeError
         else tabhl ytbl x xstart xend xstep)
      else
        (if x < xend \<or> x > xstart then Inl DomainRangeError
         else tabhl ytbl x xstart xend xstep))"

subsection \<open>class world: constants and variables\<close>

text \<open>
  \<^verbatim>\<open>struct constants\<close>. The field \<^verbatim>\<open>pi\<close> (population, initial) is \<open>pi0\<close> here: \<open>pi\<close> is the
  circle constant of HOL. Both structs have a field \<^verbatim>\<open>time\<close>; the one of the constants is
  written \<open>constants.time\<close>.
\<close>

record constants =
  brn :: real
  brn1 :: real
  ciafi :: real
  ciafn :: real
  ciaft :: real
  cidn :: real
  cidn1 :: real
  cign :: real
  cign1 :: real
  cii :: real
  drn :: real
  drn1 :: real
  ecirn :: real
  fc :: real
  fc1 :: real
  fn :: real
  la :: real
  nri :: real
  nrun :: real
  nrun1 :: real
  pdn :: real
  pi0 :: real
  poli :: real
  poln :: real
  poln1 :: real
  pols :: real
  qls :: real
  swt1 :: real
  swt2 :: real
  swt3 :: real
  swt4 :: real
  swt5 :: real
  swt6 :: real
  swt7 :: real
  time :: real
  dt :: real
  endtime :: real

text \<open>The default member initialisers of \<^verbatim>\<open>struct constants\<close>.\<close>

definition default_constants :: constants where
  "default_constants = \<lparr>
     brn = 0.04,
     brn1 = 0.04,
     ciafi = 0.2,
     ciafn = 0.3,
     ciaft = 15,
     cidn = 0.025,
     cidn1 = 0.025,
     cign = 0.05,
     cign1 = 0.05,
     cii = 400000000,
     drn = 0.028,
     drn1 = 0.028,
     ecirn = 1,
     fc = 1,
     fc1 = 1,
     fn = 1,
     la = 135000000,
     nri = 900000000000,
     nrun = 1,
     nrun1 = 1,
     pdn = 26.5,
     pi0 = 1650000000,
     poli = 200000000,
     poln = 1,
     poln1 = 1,
     pols = 3600000000,
     qls = 1,
     swt1 = 1970,
     swt2 = 1970,
     swt3 = 1970,
     swt4 = 1970,
     swt5 = 1970,
     swt6 = 1970,
     swt7 = 1970,
     time = 1900,
     dt = 0.2,
     endtime = 2100 \<rparr>"

text \<open>\<^verbatim>\<open>struct variables\<close>: 5 levels, 7 rates, 31 auxiliaries and the time.\<close>

record variables =
  ci :: real
  ciaf :: real
  nr :: real
  p :: real
  pol :: real
  br :: real
  cid :: real
  cig :: real
  dr :: real
  nrur :: real
  pola :: real
  polg :: real
  brcm :: real
  brfm :: real
  brmm :: real
  brpm :: real
  cfifr :: real
  cim :: real
  ciqr :: real
  cir :: real
  cira :: real
  cr :: real
  drcm :: real
  drfm :: real
  drmm :: real
  drpm :: real
  ecir :: real
  fcm :: real
  fpci :: real
  fpm :: real
  fr :: real
  msl :: real
  nrem :: real
  nrfr :: real
  nrmm :: real
  polat :: real
  polcm :: real
  polr :: real
  ql :: real
  qlc :: real
  qlf :: real
  qlm :: real
  qlp :: real
  time :: real

text \<open>A default-initialised \<^verbatim>\<open>variables\<close>: every member is 0.\<close>

definition variables0 :: variables where
  "variables0 = \<lparr>
     ci = 0,
     ciaf = 0,
     nr = 0,
     p = 0,
     pol = 0,
     br = 0,
     cid = 0,
     cig = 0,
     dr = 0,
     nrur = 0,
     pola = 0,
     polg = 0,
     brcm = 0,
     brfm = 0,
     brmm = 0,
     brpm = 0,
     cfifr = 0,
     cim = 0,
     ciqr = 0,
     cir = 0,
     cira = 0,
     cr = 0,
     drcm = 0,
     drfm = 0,
     drmm = 0,
     drpm = 0,
     ecir = 0,
     fcm = 0,
     fpci = 0,
     fpm = 0,
     fr = 0,
     msl = 0,
     nrem = 0,
     nrfr = 0,
     nrmm = 0,
     polat = 0,
     polcm = 0,
     polr = 0,
     ql = 0,
     qlc = 0,
     qlf = 0,
     qlm = 0,
     qlp = 0,
     time = 0 \<rparr>"

subsection \<open>world::tick\<close>

text \<open>
  The levels at time .K. With a previous snapshot \<open>prev\<close> (the member \<^verbatim>\<open>j\<close>) each level takes
  one Euler step from the .JK rates; without one the levels are the initial constants. The
  local \<^verbatim>\<open>variables k\<close> starts default-initialised.
\<close>

definition levels :: "constants \<Rightarrow> variables \<Rightarrow> bool \<Rightarrow> error + variables" where
  "levels cs prev time_j_exists =
     (if time_j_exists then
        bind (fdiv (dt cs) (ciaft cs)) (\<lambda>q.
        Inr (variables0\<lparr>
          p := p prev + dt cs * (br prev - dr prev),
          nr := nr prev + dt cs * - nrur prev,
          ci := ci prev + dt cs * (cig prev - cid prev),
          pol := pol prev + dt cs * (polg prev - pola prev),
          ciaf := ciaf prev + q * ((cfifr prev * ciqr prev) - ciaf prev),
          time := time prev + dt cs\<rparr>))
      else
        Inr (variables0\<lparr>
          p := pi0 cs,
          nr := nri cs,
          ci := cii cs,
          pol := poli cs,
          ciaf := ciafi cs,
          time := constants.time cs\<rparr>))"

text \<open>
  The auxiliaries for time .K, in the order of the source. Every division goes through
  \<open>fdiv\<close>, every lookup can throw.
\<close>

definition auxiliaries :: "constants \<Rightarrow> variables \<Rightarrow> error + variables" where
  "auxiliaries cs k0 =
     bind (fdiv (nr k0) (nri cs)) (\<lambda>v. let k = k0\<lparr>nrfr := v\<rparr> in
     bind (table [0, 0.15, 0.5, 0.85, 1] (nrfr k) 0 1 0.25) (\<lambda>v. let k = k\<lparr>nrem := v\<rparr> in
     bind (fdiv (ci k) (p k)) (\<lambda>v. let k = k\<lparr>cir := v\<rparr> in
     bind (fdiv (cir k * (1 - ciaf k) * nrem k) (1 - ciafn cs)) (\<lambda>v. let k = k\<lparr>ecir := v\<rparr> in
     bind (fdiv (ecir k) (ecirn cs)) (\<lambda>v. let k = k\<lparr>msl := v\<rparr> in
     bind (tabhl [1.2, 1, 0.85, 0.75, 0.7, 0.7] (msl k) 0 5 1) (\<lambda>v. let k = k\<lparr>brmm := v\<rparr> in
     bind (tabhl [3, 1.8, 1, 0.8, 0.7, 0.6, 0.53, 0.5, 0.5, 0.5, 0.5] (msl k) 0 5 0.5) (\<lambda>v. let k = k\<lparr>drmm := v\<rparr> in
     bind (fdiv (p k) (la cs * pdn cs)) (\<lambda>v. let k = k\<lparr>cr := v\<rparr> in
     bind (table [0.9, 1, 1.2, 1.5, 1.9, 3] (cr k) 0 5 1) (\<lambda>v. let k = k\<lparr>drcm := v\<rparr> in
     bind (table [1.05, 1, 0.9, 0.7, 0.6, 0.55] (cr k) 0 5 1) (\<lambda>v. let k = k\<lparr>brcm := v\<rparr> in
     bind (table [2.4, 1, 0.6, 0.4, 0.3, 0.2] (cr k) 0 5 1) (\<lambda>v. let k = k\<lparr>fcm := v\<rparr> in
     bind (table [2, 1.3, 1, 0.75, 0.55, 0.45, 0.38, 0.3, 0.25, 0.22, 0.2] (cr k) 0 5 0.5) (\<lambda>v. let k = k\<lparr>qlc := v\<rparr> in
     bind (tabhl [0.1, 1, 1.8, 2.4, 2.8, 3] (msl k) 0 5 1) (\<lambda>v. let k = k\<lparr>cim := v\<rparr> in
     bind (fdiv (pol k) (pols cs)) (\<lambda>v. let k = k\<lparr>polr := v\<rparr> in
     bind (table [1.02, 0.9, 0.65, 0.35, 0.2, 0.1, 0.05] (polr k) 0 60 10) (\<lambda>v. let k = k\<lparr>fpm := v\<rparr> in
     bind (table [0.92, 1.3, 2, 3.2, 4.8, 6.8, 9.2] (polr k) 0 60 10) (\<lambda>v. let k = k\<lparr>drpm := v\<rparr> in
     bind (table [1.02, 0.9, 0.7, 0.4, 0.25, 0.15, 0.1] (polr k) 0 60 10) (\<lambda>v. let k = k\<lparr>brpm := v\<rparr> in
     bind (tabhl [0.05, 1, 3, 5.4, 7.4, 8] (cir k) 0 5 1) (\<lambda>v. let k = k\<lparr>polcm := v\<rparr> in
     bind (table [0.6, 2.5, 5, 8, 11.5, 15.5, 20] (polr k) 0 60 10) (\<lambda>v. let k = k\<lparr>polat := v\<rparr> in
     bind (tabhl [0.2, 1, 1.7, 2.3, 2.7, 2.9] (msl k) 0 5 1) (\<lambda>v. let k = k\<lparr>qlm := v\<rparr> in
     bind (table [1.04, 0.85, 0.6, 0.3, 0.15, 0.05, 0.02] (polr k) 0 60 10) (\<lambda>v. let k = k\<lparr>qlp := v\<rparr> in
     bind (tabhl [0, 1, 1.8, 2.4, 2.9, 3.3, 3.6, 3.8, 3.9, 3.95, 4] (msl k) 0 10 1) (\<lambda>v. let k = k\<lparr>nrmm := v\<rparr> in
     bind (fdiv (cir k * ciaf k) (ciafn cs)) (\<lambda>v. let k = k\<lparr>cira := v\<rparr> in
     bind (tabhl [0.5, 1, 1.4, 1.7, 1.9, 2.05, 2.2] (cira k) 0 6 1) (\<lambda>v. let k = k\<lparr>fpci := v\<rparr> in
     bind (fdiv (fpci k * fcm k * fpm k * clip (fc cs) (fc1 cs) (swt7 cs) (time k)) (fn cs)) (\<lambda>v. let k = k\<lparr>fr := v\<rparr> in
     bind (tabhl [30, 3, 2, 1.4, 1, 0.7, 0.6, 0.5, 0.5] (fr k) 0 2 0.25) (\<lambda>v. let k = k\<lparr>drfm := v\<rparr> in
     bind (tabhl [0, 1, 1.6, 1.9, 2] (fr k) 0 4 1) (\<lambda>v. let k = k\<lparr>brfm := v\<rparr> in
     bind (tabhl [1, 0.6, 0.3, 0.15, 0.1] (fr k) 0 2 0.5) (\<lambda>v. let k = k\<lparr>cfifr := v\<rparr> in
     bind (tabhl [0, 1, 1.8, 2.4, 2.7] (fr k) 0 4 1) (\<lambda>v. let k = k\<lparr>qlf := v\<rparr> in
     bind (fdiv (qlm k) (qlf k)) (\<lambda>x.
     bind (tabhl [0.7, 0.8, 1, 1.5, 2] x 0 2 0.5) (\<lambda>v. let k = k\<lparr>ciqr := v\<rparr> in
     let k = k\<lparr>ql := qls cs * qlm k * qlc k * qlf k * qlp k\<rparr> in
     Inr k)))))))))))))))))))))))))))))))"

text \<open>The rates for the period .KL.\<close>

definition rates :: "constants \<Rightarrow> variables \<Rightarrow> error + variables" where
  "rates cs k0 =
     (let k = k0\<lparr>br := p k0 * clip (brn cs) (brn1 cs) (swt1 cs) (time k0)
                        * brfm k0 * brmm k0 * brcm k0 * brpm k0\<rparr> in
      let k = k\<lparr>nrur := p k * clip (nrun cs) (nrun1 cs) (swt2 cs) (time k) * nrmm k\<rparr> in
      let k = k\<lparr>dr := p k * clip (drn cs) (drn1 cs) (swt3 cs) (time k)
                        * drmm k * drpm k * drfm k * drcm k\<rparr> in
      let k = k\<lparr>cig := p k * cim k * clip (cign cs) (cign1 cs) (swt4 cs) (time k)\<rparr> in
      let k = k\<lparr>cid := ci k * clip (cidn cs) (cidn1 cs) (swt5 cs) (time k)\<rparr> in
      let k = k\<lparr>polg := p k * clip (poln cs) (poln1 cs) (swt6 cs) (time k) * polcm k\<rparr> in
      bind (fdiv (pol k) (polat k)) (\<lambda>v. let k = k\<lparr>pola := v\<rparr> in
      Inr k))"

text \<open>
  The engine: the parameter set \<^verbatim>\<open>c\<close>, the previous snapshot \<^verbatim>\<open>j\<close> and the flag
  \<^verbatim>\<open>time_j_exists_\<close>.
\<close>

record world =
  c :: constants
  j :: variables
  time_j_exists :: bool

text \<open>The constructor \<^verbatim>\<open>world(const constants & c)\<close>.\<close>

definition new_world :: "constants \<Rightarrow> world" where
  "new_world cs = \<lparr> c = cs, j = variables0, time_j_exists = False \<rparr>"


text \<open>
  \<^verbatim>\<open>tick()\<close> returns the snapshot or throws, and leaves the engine behind: the members are
  assigned (\<^verbatim>\<open>j = k; time_j_exists_ = true;\<close>) only after the whole of \<^verbatim>\<open>k\<close> is computed, so an
  exception leaves them as they were.
\<close>

definition tick :: "world \<Rightarrow> (error + variables) \<times> world" where
  "tick w =
     (case bind (levels (c w) (j w) (time_j_exists w)) (\<lambda>k.
           bind (auxiliaries (c w) k) (\<lambda>k.
           rates (c w) k)) of
        Inl e \<Rightarrow> (Inl e, w)
      | Inr k \<Rightarrow> (Inr k, w\<lparr>j := k, time_j_exists := True\<rparr>))"



section \<open>The error monad and the cast\<close>





lemma bind_eq_Inl_iff: "bind m f = Inl e \<longleftrightarrow> m = Inl e \<or> (\<exists>v. m = Inr v \<and> f v = Inl e)"
  by (cases m) (simp_all add: bind_def)








section \<open>Interpolation inside the domain\<close>







section \<open>tabhl never raises the range error\<close>

lemma vec_at_not_range_error: "vec_at ytbl i \<noteq> Inl DomainRangeError"
  by (simp add: vec_at_def)

lemma vec_back_not_range_error: "vec_back ytbl \<noteq> Inl DomainRangeError"
  by (simp add: vec_back_def)

lemma interpolate_not_range_error: "interpolate ytbl n x xstart xstep \<noteq> Inl DomainRangeError"
  by (auto simp: interpolate_def bind_eq_Inl_iff vec_at_not_range_error split: option.splits)

lemma tabhl_not_range_error: "tabhl ytbl x xstart xend xstep \<noteq> Inl DomainRangeError"
  by (simp add: tabhl_def vec_at_not_range_error vec_back_not_range_error
      interpolate_not_range_error split: option.splits)

section \<open>Claims about the lookup functions\<close>




text \<open>
  C4: table fails with DomainRangeError if and only if \<open>x\<close> lies strictly outside the closed
  interval between \<open>xstart\<close> and \<open>xend\<close> (in either direction; the two boundary values do not
  fail so), and for every \<open>x\<close> in the domain it returns exactly what tabhl returns.
\<close>

theorem table_range_error_iff:
  "(table ytbl x xstart xend xstep = Inl DomainRangeError
      \<longleftrightarrow> x < min xstart xend \<or> max xstart xend < x)
   \<and> (min xstart xend \<le> x \<and> x \<le> max xstart xend
      \<longrightarrow> table ytbl x xstart xend xstep = tabhl ytbl x xstart xend xstep)"
  by (auto simp: table_def tabhl_not_range_error)

theorem table_range_error_iff_witness:
  "table [1, 2] 5 3 4 1 = Inl DomainRangeError
   \<and> table [1, 2] 2 4 3 (- 1) = Inl DomainRangeError
   \<and> table [1, 2] 3 3 4 1 \<noteq> Inl DomainRangeError
   \<and> table [1, 2] 4 3 4 1 \<noteq> Inl DomainRangeError
   \<and> table [1, 2] 3.5 4 3 (- 1) = tabhl [1, 2] 3.5 4 3 (- 1)"
proof -
  have "table [1, 2] 5 3 4 1 = Inl DomainRangeError"
    using table_range_error_iff[of "[1, 2]" 5 3 4 1] by simp
  moreover have "table [1, 2] 2 4 3 (- 1) = Inl DomainRangeError"
    using table_range_error_iff[of "[1, 2]" 2 4 3 "- 1"] by simp
  moreover have "table [1, 2] 3 3 4 1 \<noteq> Inl DomainRangeError"
    using table_range_error_iff[of "[1, 2]" 3 3 4 1] by auto
  moreover have "table [1, 2] 4 3 4 1 \<noteq> Inl DomainRangeError"
    using table_range_error_iff[of "[1, 2]" 4 3 4 1] by auto
  moreover have "table [1, 2] 3.5 4 3 (- 1) = tabhl [1, 2] 3.5 4 3 (- 1)"
    using table_range_error_iff[of "[1, 2]" "3.5" 4 3 "- 1"] by simp
  ultimately show ?thesis by blast
qed






section \<open>The three passes of tick\<close>










section \<open>tick and its callers\<close>






section \<open>The size check of the 22 lookups\<close>

lemma vec_at_not_size_error: "vec_at ytbl i \<noteq> Inl DomainSizeError"
  by (simp add: vec_at_def)

lemma vec_back_not_size_error: "vec_back ytbl \<noteq> Inl DomainSizeError"
  by (simp add: vec_back_def)

lemma interpolate_not_size_error: "interpolate ytbl n x xstart xstep \<noteq> Inl DomainSizeError"
  by (auto simp: interpolate_def bind_eq_Inl_iff vec_at_not_size_error split: option.splits)

lemma tabhl_size_ok:
  "table_range xstart xend xstep = Some (length ytbl) \<Longrightarrow>
     (tabhl ytbl x xstart xend xstep = Inl DomainSizeError) = False"
  by (simp add: tabhl_def vec_at_not_size_error vec_back_not_size_error
      interpolate_not_size_error)

lemma table_size_ok:
  "table_range xstart xend xstep = Some (length ytbl) \<Longrightarrow>
     (table ytbl x xstart xend xstep = Inl DomainSizeError) = False"
  by (simp add: table_def tabhl_size_ok)

lemma fdiv_not_size_error: "(fdiv a b = Inl DomainSizeError) = False"
  by (simp add: fdiv_def)

lemma levels_not_size_error: "levels cs prev e \<noteq> Inl DomainSizeError"
  by (simp add: levels_def bind_eq_Inl_iff fdiv_not_size_error)

lemma auxiliaries_not_size_error: "auxiliaries cs k0 \<noteq> Inl DomainSizeError"
  by (simp add: auxiliaries_def bind_eq_Inl_iff Let_def fdiv_not_size_error
      tabhl_size_ok table_size_ok table_range_def to_size_t_def)

lemma rates_not_size_error: "rates cs k \<noteq> Inl DomainSizeError"
  by (simp add: rates_def bind_eq_Inl_iff Let_def fdiv_not_size_error)

section \<open>Concrete runs\<close>







section \<open>Claims about the engine\<close>












text \<open>
  C10: each of the 22 literal tables in tick has the length expected for its literal domain
  and step, so tick never fails with DomainSizeError, for every engine state and every
  parameter set.
\<close>

theorem tick_never_size_error: "fst (tick w) \<noteq> Inl DomainSizeError"
  by (auto simp: tick_def bind_eq_Inl_iff levels_not_size_error auxiliaries_not_size_error
      rates_not_size_error split: sum.splits)

theorem tick_never_size_error_witness:
  "fst (tick (new_world default_constants)) \<noteq> Inl DomainSizeError
   \<and> fst (tick (new_world (default_constants\<lparr>pi0 := 100000000000\<rparr>))) \<noteq> Inl DomainSizeError"
  using tick_never_size_error[of "new_world default_constants"]
    tick_never_size_error[of "new_world (default_constants\<lparr>pi0 := 100000000000\<rparr>)"]
  by blast

end
